theory Spec2Isabelle
  imports Main
begin

section \<open>Python values of the e-commerce backend (\<open>src/main.py\<close>)\<close>

text \<open>
  A Python \<open>str\<close> is a sequence of Unicode code points: slicing (\<open>str(e)[:50]\<close>) and
  concatenation (f-strings) count code points, so the model holds a \<open>str\<close> as the list of
  its code points. \<open>lit\<close> turns an ASCII literal of the source into that form.
\<close>

type_synonym pystr = "nat list"

definition lit :: "string \<Rightarrow> pystr" where
  "lit s = map of_char s"

text \<open>
  Exceptions. \<open>HTTPException(status_code, detail)\<close> is what the handlers raise to the
  framework. Every other exception is kept by its class, as far as \<open>main.py\<close> tells classes
  apart (only \<open>ImportError\<close>), and by the text \<open>str(e)\<close> the handlers read from it.
\<close>

datatype http_exception = HTTPException (status_code: nat) (detail: pystr)

datatype py_exception = ImportError pystr | Exception pystr

fun str_exn :: "py_exception \<Rightarrow> pystr" where
  "str_exn (ImportError m) = m"
| "str_exn (Exception m) = m"

text \<open>What the body of a \<open>try\<close> block in \<open>create_order\<close> can raise.\<close>

datatype raised = Http http_exception | Py py_exception

text \<open>
  JSON-like values stored in documents. A float is never computed with; it is held as the
  decimal literal the source writes (\<open>24.99\<close>).
\<close>

datatype "value" =
    VNone
  | VBool bool
  | VInt int
  | VFloat string
  | VStr pystr
  | VList "value list"
  | VDict "(string \<times> value) list"

type_synonym fields = "(string \<times> value) list"

text \<open>\<open>d[k] = v\<close> on a Python dict: an existing key keeps its place, a new key goes last.\<close>

fun dict_set :: "fields \<Rightarrow> string \<Rightarrow> value \<Rightarrow> fields" where
  "dict_set [] k v = [(k, v)]"
| "dict_set ((k', v') # d) k v = (if k' = k then (k, v) # d else (k', v') # dict_set d k v)"

section \<open>Identifiers of the store (\<open>bson.ObjectId\<close>)\<close>

text \<open>
  \<open>bson\<close> is a library, not code of this repository: the three operations \<open>main.py\<close> and
  the gateway use are parameters of the model. \<open>is_valid\<close> is the identifier-format rule,
  \<open>ObjectId\<close> the constructor from a string (called by \<open>create_order\<close> only on strings
  \<open>is_valid\<close> accepted, where it does not raise), \<open>oid_str\<close> is \<open>str\<close> on an identifier.
\<close>

type_synonym oid = nat

record bson =
  is_valid :: "pystr \<Rightarrow> bool"
  ObjectId :: "pystr \<Rightarrow> oid"
  oid_str :: "oid \<Rightarrow> pystr"

section \<open>The document store gateway (\<open>database.py\<close>)\<close>

text \<open>
  A stored document has the identifier the store gave it under \<open>_id\<close> and its other
  fields. A collection keeps its documents in insertion order; the store keeps its
  collections by name, a collection coming into being at its first insert.

  \<open>connected\<close> is \<open>db is not None\<close>. \<open>read_failure\<close> and \<open>write_failure\<close> hold the
  message of the error the underlying client raises on a read or a write, when it does.
  \<open>next_oid\<close> is the state of the store's identifier generator.
\<close>

record document =
  doc_id :: oid
  doc_fields :: fields

record store =
  connected :: bool
  read_failure :: "pystr option"
  write_failure :: "pystr option"
  colls :: "(string \<times> document list) list"
  next_oid :: oid

definition coll :: "store \<Rightarrow> string \<Rightarrow> document list" where
  "coll s name = (case map_of (colls s) name of None \<Rightarrow> [] | Some ds \<Rightarrow> ds)"

fun coll_put :: "(string \<times> document list) list \<Rightarrow> string \<Rightarrow> document list
    \<Rightarrow> (string \<times> document list) list" where
  "coll_put [] name ds = [(name, ds)]"
| "coll_put ((n, ds') # cs) name ds =
     (if n = name then (name, ds) # cs else (n, ds') # coll_put cs name ds)"

definition healthy :: "store \<Rightarrow> bool" where
  "healthy s \<longleftrightarrow> connected s \<and> read_failure s = None \<and> write_failure s = None"

text \<open>
  \<open>db[name]\<close> as \<open>main.py\<close> writes it (\<open>db["product"]\<close>): subscripting \<open>None\<close> raises
  Python's \<open>TypeError\<close>, whose text has the class name between two apostrophes
  (code point 39).
\<close>

definition none_not_subscriptable :: pystr where
  "none_not_subscriptable = [39] @ lit ''NoneType'' @ [39] @ lit '' object is not subscriptable''"

definition db_getitem :: "store \<Rightarrow> string \<Rightarrow> py_exception + document list" where
  "db_getitem s name =
     (if \<not> connected s then Inl (Exception none_not_subscriptable)
      else Inr (coll s name))"

text \<open>
  The two queries \<open>main.py\<close> sends to the product collection itself,
  \<open>db["product"].find_one({"_id": oid})\<close> and \<open>db["product"].count_documents({})\<close>:
  the first document with that identifier, or \<open>None\<close>; the number of documents.
\<close>

definition find_one :: "store \<Rightarrow> string \<Rightarrow> oid \<Rightarrow> py_exception + document option" where
  "find_one s name i =
     (case db_getitem s name of
        Inl e \<Rightarrow> Inl e
      | Inr ds \<Rightarrow>
          (case read_failure s of
             Some m \<Rightarrow> Inl (Exception m)
           | None \<Rightarrow> Inr (find (\<lambda>d. doc_id d = i) ds)))"

definition count_documents :: "store \<Rightarrow> string \<Rightarrow> py_exception + int" where
  "count_documents s name =
     (case db_getitem s name of
        Inl e \<Rightarrow> Inl e
      | Inr ds \<Rightarrow>
          (case read_failure s of
             Some m \<Rightarrow> Inl (Exception m)
           | None \<Rightarrow> Inr (int (length ds))))"

text \<open>
  Modelled from the spec: \<open>create_document\<close> and \<open>get_documents\<close> of \<open>database.py\<close>,
  which is not under \<open>src/\<close>. The spec (4.1): \<open>insert(collectionName, record)\<close> gives the
  generated identifier and fails with \<open>StoreUnavailable\<close> if no connection is established,
  or \<open>WriteFailure\<close> on any underlying write error; \<open>fetchAll(collectionName)\<close> gives the
  sequence of records and fails with \<open>StoreUnavailable\<close> or \<open>ReadFailure\<close>; errors
  propagate to the caller. The identifier comes back as the string the HTTP surface
  returns (\<open>{"id": <string>}\<close>). The spec names \<open>StoreUnavailable\<close> and not its text.
  Identifiers are assigned by the store (3) and are fresh, previously unseen (8): the
  generator is modelled as a counter, \<open>next_oid\<close>, that an insert hands out and advances.
  An insert that fails leaves the store as it was.
\<close>

definition StoreUnavailable :: py_exception where
  "StoreUnavailable = Exception (lit ''StoreUnavailable'')"

definition create_document :: "bson \<Rightarrow> store \<Rightarrow> string \<Rightarrow> fields \<Rightarrow> py_exception + (pystr \<times> store)" where
  "create_document B s name data =
     (if \<not> connected s then Inl StoreUnavailable
      else case write_failure s of
             Some m \<Rightarrow> Inl (Exception m)
           | None \<Rightarrow>
               (let i = next_oid s;
                    d = \<lparr>doc_id = i, doc_fields = data\<rparr>
                in Inr (oid_str B i,
                        s\<lparr>colls := coll_put (colls s) name (coll s name @ [d]),
                          next_oid := Suc i\<rparr>)))"

text \<open>
  A fetched document is a Python dict. Its only entry that holds an identifier is the one
  under \<open>_id\<close>, kept here beside the other entries: \<open>None\<close> when the dict has no such key.
\<close>

record doc_dict =
  underscore_id :: "oid option"
  entries :: fields

definition fetched :: "document \<Rightarrow> doc_dict" where
  "fetched d = \<lparr>underscore_id = Some (doc_id d), entries = doc_fields d\<rparr>"

definition get_documents :: "store \<Rightarrow> string \<Rightarrow> py_exception + doc_dict list" where
  "get_documents s name =
     (if \<not> connected s then Inl StoreUnavailable
      else case read_failure s of
             Some m \<Rightarrow> Inl (Exception m)
           | None \<Rightarrow> Inr (map fetched (coll s name)))"

section \<open>Schemas (\<open>schemas.py\<close>)\<close>

text \<open>
  Modelled from the spec: the \<open>Order\<close> schema of \<open>schemas.py\<close>, which is not under
  \<open>src/\<close>. The spec (3): an ordered sequence of line items, each with a product identifier
  (a string) and a quantity; the interface table adds "order fields" it does not name,
  kept here as they are stored. \<open>OrderRequest\<close> of \<open>main.py\<close> adds nothing to \<open>Order\<close>.
  \<open>order_document\<close> is the record the gateway stores for an order.
\<close>

record order_item =
  product_id :: pystr
  quantity :: int

record order_request =
  items :: "order_item list"
  order_fields :: fields

definition item_document :: "order_item \<Rightarrow> value" where
  "item_document it = VDict [(''product_id'', VStr (product_id it)), (''quantity'', VInt (quantity it))]"

definition order_document :: "order_request \<Rightarrow> fields" where
  "order_document order = (''items'', VList (map item_document (items order))) # order_fields order"

section \<open>\<open>create_order\<close> (POST \<open>/api/orders\<close>)\<close>

text \<open>
  The body of the loop over \<open>order.items\<close>: the format check, then the lookup. A found
  document is a dict with its \<open>_id\<close> entry, hence true; \<open>None\<close> is false.
\<close>

definition check_item :: "bson \<Rightarrow> store \<Rightarrow> order_item \<Rightarrow> raised + unit" where
  "check_item B s item =
     (if \<not> is_valid B (product_id item)
      then Inl (Http (HTTPException 400 (lit ''Invalid product id: '' @ product_id item)))
      else case find_one s ''product'' (ObjectId B (product_id item)) of
             Inl e \<Rightarrow> Inl (Py e)
           | Inr None \<Rightarrow>
               Inl (Http (HTTPException 404 (lit ''Product not found: '' @ product_id item)))
           | Inr (Some found) \<Rightarrow> Inr ())"

text \<open>The loop, item by item in the order of the list; the first \<open>raise\<close> leaves it.\<close>

fun check_items :: "bson \<Rightarrow> store \<Rightarrow> order_item list \<Rightarrow> raised + unit" where
  "check_items B s [] = Inr ()"
| "check_items B s (item # rest) =
     (case check_item B s item of
        Inl r \<Rightarrow> Inl r
      | Inr u \<Rightarrow> check_items B s rest)"

text \<open>
  \<open>except HTTPException: raise\<close> and \<open>except Exception as e: raise HTTPException(500, str(e))\<close>.
\<close>

fun reraise :: "raised \<Rightarrow> http_exception" where
  "reraise (Http h) = h"
| "reraise (Py e) = HTTPException 500 (str_exn e)"

text \<open>
  The returned dict \<open>{"id": inserted_id, "status": "created"}\<close>; its key \<open>id\<close> is the
  field \<open>created_id\<close> (\<open>id\<close> is the identity function of HOL).
\<close>

record order_created =
  created_id :: pystr
  status :: pystr

definition create_order :: "bson \<Rightarrow> store \<Rightarrow> order_request \<Rightarrow> (http_exception + order_created) \<times> store" where
  "create_order B s order =
     (case check_items B s (items order) of
        Inl r \<Rightarrow> (Inl (reraise r), s)
      | Inr u \<Rightarrow>
          (case create_document B s ''order'' (order_document order) of
             Inl e \<Rightarrow> (Inl (reraise (Py e)), s)
           | Inr (inserted_id, s') \<Rightarrow>
               (Inr \<lparr>created_id = inserted_id, status = lit ''created''\<rparr>, s')))"

section \<open>\<open>list_products\<close> (GET \<open>/api/products\<close>)\<close>

text \<open>
  The body of the loop: \<open>d["id"] = str(d.get("_id"))\<close>, then \<open>d.pop("_id", None)\<close>.
  \<open>d.get\<close> gives \<open>None\<close> for a missing key, and \<open>str(None)\<close> is \<open>"None"\<close>.
\<close>

definition str_get_id :: "bson \<Rightarrow> doc_dict \<Rightarrow> pystr" where
  "str_get_id B d = (case underscore_id d of None \<Rightarrow> lit ''None'' | Some i \<Rightarrow> oid_str B i)"

definition expose_id :: "bson \<Rightarrow> doc_dict \<Rightarrow> doc_dict" where
  "expose_id B d =
     (let d1 = d\<lparr>entries := dict_set (entries d) ''id'' (VStr (str_get_id B d))\<rparr>
      in d1\<lparr>underscore_id := None\<rparr>)"

fun products_loop :: "bson \<Rightarrow> doc_dict list \<Rightarrow> doc_dict list \<Rightarrow> doc_dict list" where
  "products_loop B [] products = products"
| "products_loop B (d # docs) products = products_loop B docs (products @ [expose_id B d])"

definition list_products :: "bson \<Rightarrow> store \<Rightarrow> http_exception + doc_dict list" where
  "list_products B s =
     (case get_documents s ''product'' of
        Inl e \<Rightarrow> Inl (HTTPException 500 (str_exn e))
      | Inr docs \<Rightarrow> Inr (products_loop B docs []))"

section \<open>\<open>seed_products\<close> (POST \<open>/api/seed\<close>)\<close>

definition demo :: "fields list" where
  "demo =
     [[(''title'', VStr (lit ''Classic Tee'')),
       (''description'', VStr (lit ''Soft cotton tee in multiple colors.'')),
       (''price'', VFloat ''24.99''),
       (''category'', VStr (lit ''Apparel'')),
       (''image'', VStr (lit ''https://images.unsplash.com/photo-1512436991641-6745cdb1723f?q=80&w=1200&auto=format&fit=crop'')),
       (''in_stock'', VBool True)],
      [(''title'', VStr (lit ''Minimal Backpack'')),
       (''description'', VStr (lit ''Durable everyday backpack with laptop sleeve.'')),
       (''price'', VFloat ''79.0''),
       (''category'', VStr (lit ''Accessories'')),
       (''image'', VStr (lit ''https://images.unsplash.com/photo-1500530855697-b586d89ba3ee?q=80&w=1200&auto=format&fit=crop'')),
       (''in_stock'', VBool True)],
      [(''title'', VStr (lit ''Ceramic Mug'')),
       (''description'', VStr (lit ''12oz matte-finish mug. Dishwasher safe.'')),
       (''price'', VFloat ''14.5''),
       (''category'', VStr (lit ''Home'')),
       (''image'', VStr (lit ''https://images.unsplash.com/photo-1517686469429-8bdb88b9f907?q=80&w=1200&auto=format&fit=crop'')),
       (''in_stock'', VBool True)]]"

text \<open>
  \<open>for d in demo: create_document("product", d)\<close>. An insert that raises leaves the loop;
  what was inserted before it stays in the store.
\<close>

fun insert_loop :: "bson \<Rightarrow> store \<Rightarrow> string \<Rightarrow> fields list \<Rightarrow> py_exception option \<times> store" where
  "insert_loop B s name [] = (None, s)"
| "insert_loop B s name (d # ds) =
     (case create_document B s name d of
        Inl e \<Rightarrow> (Some e, s)
      | Inr (i, s') \<Rightarrow> insert_loop B s' name ds)"

text \<open>The returned dict \<open>{"message": ..., "count": ...}\<close>.\<close>

record seed_result =
  message :: pystr
  seed_count :: int

definition seed_products :: "bson \<Rightarrow> store \<Rightarrow> (http_exception + seed_result) \<times> store" where
  "seed_products B s =
     (case count_documents s ''product'' of
        Inl e \<Rightarrow> (Inl (HTTPException 500 (str_exn e)), s)
      | Inr count \<Rightarrow>
          if count > 0
          then (Inr \<lparr>message = lit ''Products already seeded'', seed_count = count\<rparr>, s)
          else (case insert_loop B s ''product'' demo of
                  (Some e, s') \<Rightarrow> (Inl (HTTPException 500 (str_exn e)), s')
                | (None, s') \<Rightarrow>
                    (Inr \<lparr>message = lit ''Seeded'', seed_count = int (length demo)\<rparr>, s')))"

section \<open>\<open>test_database\<close> (GET \<open>/test\<close>)\<close>

text \<open>
  What \<open>test_database\<close> reads from outside. \<open>import_db\<close> is the outcome of
  \<open>from database import db as _db\<close>: an exception, \<open>None\<close> or a handle. Of a handle it
  uses the attribute \<open>name\<close> (\<open>name_attr\<close> is \<open>None\<close> when the handle has no such attribute,
  so that \<open>hasattr\<close> is false; reading an attribute can also raise, and \<open>hasattr\<close> lets
  every exception but \<open>AttributeError\<close> through) and the call \<open>list_collection_names()\<close>.
  \<open>getenv\<close> is \<open>os.getenv\<close>.
\<close>

record db_handle =
  name_attr :: "(py_exception + pystr) option"
  list_collection_names :: "py_exception + pystr list"

record diag_env =
  import_db :: "py_exception + db_handle option"
  getenv :: "string \<Rightarrow> pystr option"

record diagnostics =
  backend :: pystr
  database :: pystr
  database_url :: "pystr option"
  database_name :: "pystr option"
  connection_status :: pystr
  collections :: "pystr list"

text \<open>The three non-ASCII marks of the source's status texts, as code points.\<close>

definition check_mark :: pystr where
  "check_mark = [0x2705]"

definition cross_mark :: pystr where
  "cross_mark = [0x274C]"

definition warning_sign :: pystr where
  "warning_sign = [0x26A0, 0xFE0F]"

definition initial_response :: diagnostics where
  "initial_response =
     \<lparr>backend = check_mark @ lit '' Running'',
      database = cross_mark @ lit '' Not Available'',
      database_url = None,
      database_name = None,
      connection_status = lit ''Not Connected'',
      collections = []\<rparr>"

text \<open>
  The inner \<open>try\<close>: \<open>except Exception\<close> takes every exception of the listing.
\<close>

definition list_step :: "db_handle \<Rightarrow> diagnostics \<Rightarrow> diagnostics" where
  "list_step h r =
     (case list_collection_names h of
        Inr cs \<Rightarrow>
          r\<lparr>collections := take 10 cs,
            database := check_mark @ lit '' Connected & Working''\<rparr>
      | Inl e \<Rightarrow>
          r\<lparr>database := warning_sign @ lit ''  Connected but Error: '' @ take 50 (str_exn e)\<rparr>)"

text \<open>
  The body of the outer \<open>try\<close>. The response is updated in place, so what was written
  before an exception stays written: the body gives the exception, if any, and the
  response as it stands.
\<close>

definition try_body :: "diag_env \<Rightarrow> diagnostics \<Rightarrow> py_exception option \<times> diagnostics" where
  "try_body env r =
     (case import_db env of
        Inl e \<Rightarrow> (Some e, r)
      | Inr None \<Rightarrow>
          (None, r\<lparr>database := warning_sign @ lit ''  Available but not initialized''\<rparr>)
      | Inr (Some h) \<Rightarrow>
          (let r1 = r\<lparr>database := check_mark @ lit '' Available''\<rparr>;
               r2 = r1\<lparr>database_url := Some (check_mark @ lit '' Configured'')\<rparr>
           in case name_attr h of
                Some (Inl e) \<Rightarrow> (Some e, r2)
              | other \<Rightarrow>
                  (let r3 = r2\<lparr>database_name :=
                              Some (case other of
                                      Some (Inr n) \<Rightarrow> n
                                    | _ \<Rightarrow> check_mark @ lit '' Connected'')\<rparr>;
                       r4 = r3\<lparr>connection_status := lit ''Connected''\<rparr>
                   in (None, list_step h r4))))"

text \<open>\<open>except ImportError\<close> and \<open>except Exception as e\<close> of the outer \<open>try\<close>.\<close>

fun except_outer :: "py_exception \<Rightarrow> diagnostics \<Rightarrow> diagnostics" where
  "except_outer (ImportError m) r =
     r\<lparr>database := cross_mark @ lit '' Database module not found (run enable-database first)''\<rparr>"
| "except_outer (Exception m) r =
     r\<lparr>database := cross_mark @ lit '' Error: '' @ take 50 (str_exn (Exception m))\<rparr>"

text \<open>\<open>"..." if os.getenv(k) else "..."\<close>: an unset variable and the empty string are false.\<close>

definition env_flag :: "diag_env \<Rightarrow> string \<Rightarrow> pystr" where
  "env_flag env k =
     (case getenv env k of
        None \<Rightarrow> cross_mark @ lit '' Not Set''
      | Some v \<Rightarrow> if v = [] then cross_mark @ lit '' Not Set'' else check_mark @ lit '' Set'')"

text \<open>
  The handler gives the framework either an exception that left it or the response it
  returns; an exception the two \<open>except\<close> clauses of the outer \<open>try\<close> do not take would be
  the former.
\<close>

definition test_database :: "diag_env \<Rightarrow> py_exception + diagnostics" where
  "test_database env =
     (let (exn, r) = try_body env initial_response;
          r' = (case exn of None \<Rightarrow> r | Some e \<Rightarrow> except_outer e r);
          r1 = r'\<lparr>database_url := Some (env_flag env ''DATABASE_URL'')\<rparr>;
          r2 = r1\<lparr>database_name := Some (env_flag env ''DATABASE_NAME'')\<rparr>
      in Inr r2)"

section \<open>A concrete identifier format and concrete stores\<close>

text \<open>
  One instance of the \<open>bson\<close> parameters, on which the model is run: an identifier is
  written as 24 hexadecimal digits, the way \<open>str\<close> prints an \<open>ObjectId\<close>.
\<close>

definition hex_value :: "nat \<Rightarrow> nat option" where
  "hex_value c =
     (if 48 \<le> c \<and> c \<le> 57 then Some (c - 48)
      else if 97 \<le> c \<and> c \<le> 102 then Some (c - 87)
      else if 65 \<le> c \<and> c \<le> 70 then Some (c - 55)
      else None)"

definition hex24_valid :: "pystr \<Rightarrow> bool" where
  "hex24_valid x \<longleftrightarrow> length x = 24 \<and> list_all (\<lambda>c. hex_value c \<noteq> None) x"

definition hex24_parse :: "pystr \<Rightarrow> oid" where
  "hex24_parse x = foldl (\<lambda>a c. 16 * a + (case hex_value c of None \<Rightarrow> 0 | Some v \<Rightarrow> v)) 0 x"

definition hex_char :: "nat \<Rightarrow> nat" where
  "hex_char v = (if v < 10 then 48 + v else 87 + v)"

fun hex_digits :: "nat \<Rightarrow> nat \<Rightarrow> pystr" where
  "hex_digits 0 n = []"
| "hex_digits (Suc k) n = hex_digits k (n div 16) @ [hex_char (n mod 16)]"

definition hex24 :: bson where
  "hex24 = \<lparr>is_valid = hex24_valid, ObjectId = hex24_parse, oid_str = hex_digits 24\<rparr>"

text \<open>A reachable store with nothing in it, and a store with no handle.\<close>

definition empty_store :: store where
  "empty_store =
     \<lparr>connected = True, read_failure = None, write_failure = None, colls = [], next_oid = 1\<rparr>"

definition no_store :: store where
  "no_store =
     \<lparr>connected = False, read_failure = None, write_failure = None, colls = [], next_oid = 1\<rparr>"

text \<open>
  The invariant of the identifier generator: every stored document has an identifier the
  generator has already passed.
\<close>

definition store_ok :: "store \<Rightarrow> bool" where
  "store_ok s \<longleftrightarrow> list_all (\<lambda>(name, ds). list_all (\<lambda>d. doc_id d < next_oid s) ds) (colls s)"

text \<open>
  A reachable store with two products, and a line item with the given identifier.
\<close>

definition shop :: store where
  "shop =
     \<lparr>connected = True, read_failure = None, write_failure = None,
      colls = [(''product'',
                [\<lparr>doc_id = 1, doc_fields = [(''title'', VStr (lit ''Classic Tee''))]\<rparr>,
                 \<lparr>doc_id = 2, doc_fields = [(''title'', VStr (lit ''Ceramic Mug''))]\<rparr>])],
      next_oid = 3\<rparr>"

definition line :: "string \<Rightarrow> order_item" where
  "line x = \<lparr>product_id = lit x, quantity = 1\<rparr>"

text \<open>
  An order whose first item is well-formed with no matching product in \<open>shop\<close> and whose
  second item is malformed; and \<open>shop\<close> with every read failing.
\<close>

definition mixed_order :: order_request where
  "mixed_order =
     \<lparr>items = [line ''000000000000000000000009'', line ''not-a-valid-id''], order_fields = []\<rparr>"

definition reads_fail :: store where
  "reads_fail = shop\<lparr>read_failure := Some (lit ''connection reset'')\<rparr>"

text \<open>
  Environments of \<open>test_database\<close>: a handle whose store does not answer (the listing
  raises the client's timeout error, 61 characters long), no handle at all, and a handle
  whose store lists twelve collections. \<open>configured\<close> has both variables set.
\<close>

definition configured :: "string \<Rightarrow> pystr option" where
  "configured k =
     (if k = ''DATABASE_URL'' then Some (lit ''mongodb://localhost:27017'')
      else if k = ''DATABASE_NAME'' then Some (lit ''shop'')
      else None)"

definition unreachable_env :: diag_env where
  "unreachable_env =
     \<lparr>import_db = Inr (Some
        \<lparr>name_attr = Some (Inr (lit ''shop'')),
         list_collection_names =
           Inl (Exception (lit ''localhost:27017: [Errno 111] Connection refused, Timeout: 30s''))\<rparr>),
      getenv = configured\<rparr>"

definition no_handle_env :: diag_env where
  "no_handle_env = \<lparr>import_db = Inr None, getenv = (\<lambda>k. None)\<rparr>"

definition twelve_names :: "pystr list" where
  "twelve_names =
     map lit [''user'', ''product'', ''order'', ''cart'', ''review'', ''coupon'', ''address'',
              ''payment'', ''shipment'', ''session'', ''audit'', ''archive'']"

definition working_env :: diag_env where
  "working_env =
     \<lparr>import_db = Inr (Some
        \<lparr>name_attr = Some (Inr (lit ''shop'')), list_collection_names = Inr twelve_names\<rparr>),
      getenv = configured\<rparr>"

section \<open>The store: lookups, inserts and the generator's invariant\<close>

lemma find_one_readable:
  "connected s \<Longrightarrow> read_failure s = None \<Longrightarrow>
   find_one s name i = Inr (find (\<lambda>d. doc_id d = i) (coll s name))"
  by (simp add: find_one_def db_getitem_def)

lemma check_items_prefix_ok:
  "\<forall>x\<in>set pre. check_item B s x = Inr () \<Longrightarrow>
   check_items B s (pre @ rest) = check_items B s rest"
  by (induction pre) auto

lemma check_items_malformed_fails:
  "\<exists>x\<in>set xs. \<not> is_valid B (product_id x) \<Longrightarrow> \<exists>r. check_items B s xs = Inl r"
proof (induction xs)
  case Nil
  then show ?case by simp
next
  case (Cons a xs)
  show ?case
  proof (cases "check_item B s a")
    case (Inl r)
    then show ?thesis by simp
  next
    case (Inr u)
    then have "is_valid B (product_id a)"
      by (auto simp: check_item_def split: if_splits)
    with Cons.prems have "\<exists>x\<in>set xs. \<not> is_valid B (product_id x)" by auto
    with Cons.IH Inr show ?thesis by simp
  qed
qed

lemma check_item_ok_iff:
  "check_item B s x = Inr () \<longleftrightarrow>
     is_valid B (product_id x) \<and> (\<exists>d. find_one s ''product'' (ObjectId B (product_id x)) = Inr (Some d))"
  by (auto simp: check_item_def split: sum.splits option.splits)

lemma find_Some_iff_ex:
  "(\<exists>d. find P xs = Some d) \<longleftrightarrow> (\<exists>d\<in>set xs. P d)"
  by (induction xs) auto

lemma find_None_iff_all:
  "find P xs = None \<longleftrightarrow> (\<forall>d\<in>set xs. \<not> P d)"
  by (induction xs) auto

lemma check_item_resolves:
  assumes "connected s" "read_failure s = None" "is_valid B (product_id x)"
    and "\<exists>d\<in>set (coll s ''product''). doc_id d = ObjectId B (product_id x)"
  shows "check_item B s x = Inr ()"
proof -
  from assms(4) obtain d where "find (\<lambda>d. doc_id d = ObjectId B (product_id x)) (coll s ''product'') = Some d"
    using find_Some_iff_ex [of "\<lambda>d. doc_id d = ObjectId B (product_id x)" "coll s ''product''"] by blast
  then show ?thesis
    using assms(1-3) by (simp add: check_item_def find_one_readable)
qed

lemma check_item_missing:
  assumes "connected s" "read_failure s = None" "is_valid B (product_id x)"
    and "\<forall>d\<in>set (coll s ''product''). doc_id d \<noteq> ObjectId B (product_id x)"
  shows "check_item B s x = Inl (Http (HTTPException 404 (lit ''Product not found: '' @ product_id x)))"
proof -
  from assms(4) have "find (\<lambda>d. doc_id d = ObjectId B (product_id x)) (coll s ''product'') = None"
    by (simp add: find_None_iff_all)
  then show ?thesis
    using assms(1-3) by (simp add: check_item_def find_one_readable)
qed

lemma check_item_malformed:
  "\<not> is_valid B (product_id x) \<Longrightarrow>
   check_item B s x = Inl (Http (HTTPException 400 (lit ''Invalid product id: '' @ product_id x)))"
  by (simp add: check_item_def)

lemma check_items_some_missing:
  assumes "connected s" "read_failure s = None"
  shows "\<forall>x\<in>set xs. is_valid B (product_id x) \<Longrightarrow>
     \<exists>x\<in>set xs. \<forall>d\<in>set (coll s ''product''). doc_id d \<noteq> ObjectId B (product_id x) \<Longrightarrow>
     \<exists>x\<in>set xs. (\<forall>d\<in>set (coll s ''product''). doc_id d \<noteq> ObjectId B (product_id x)) \<and>
        check_items B s xs = Inl (Http (HTTPException 404 (lit ''Product not found: '' @ product_id x)))"
proof (induction xs)
  case Nil
  then show ?case by simp
next
  case (Cons a xs)
  show ?case
  proof (cases "\<exists>d\<in>set (coll s ''product''). doc_id d = ObjectId B (product_id a)")
    case True
    with assms Cons.prems(1) have ok: "check_item B s a = Inr ()"
      by (simp add: check_item_resolves)
    from True Cons.prems(2)
    have "\<exists>x\<in>set xs. \<forall>d\<in>set (coll s ''product''). doc_id d \<noteq> ObjectId B (product_id x)"
      by auto
    with Cons.IH Cons.prems(1) obtain x where "x \<in> set xs"
      "\<forall>d\<in>set (coll s ''product''). doc_id d \<noteq> ObjectId B (product_id x)"
      "check_items B s xs = Inl (Http (HTTPException 404 (lit ''Product not found: '' @ product_id x)))"
      by auto
    with ok show ?thesis by auto
  next
    case False
    with assms Cons.prems(1)
    have "check_item B s a = Inl (Http (HTTPException 404 (lit ''Product not found: '' @ product_id a)))"
      by (simp add: check_item_missing)
    with False show ?thesis by auto
  qed
qed

lemma check_items_all_resolve:
  assumes "connected s" "read_failure s = None"
  shows "\<forall>x\<in>set xs. is_valid B (product_id x) \<and>
            (\<exists>d\<in>set (coll s ''product''). doc_id d = ObjectId B (product_id x)) \<Longrightarrow>
     check_items B s xs = Inr ()"
  using assms by (induction xs) (simp_all add: check_item_resolves)

lemma map_of_coll_put:
  "map_of (coll_put cs name ds) = (map_of cs)(name \<mapsto> ds)"
  by (induction cs name ds rule: coll_put.induct) (auto simp: fun_eq_iff)

lemma coll_after_put:
  "coll (s\<lparr>colls := coll_put (colls s) name ds, next_oid := n\<rparr>) name' =
     (if name' = name then ds else coll s name')"
  by (simp add: coll_def map_of_coll_put)

lemma store_ok_coll:
  assumes "store_ok s" "d \<in> set (coll s name)"
  shows "doc_id d < next_oid s"
proof (cases "map_of (colls s) name")
  case None
  with assms(2) show ?thesis by (simp add: coll_def)
next
  case (Some ds)
  then have "(name, ds) \<in> set (colls s)" by (rule map_of_SomeD)
  with assms(1) have "list_all (\<lambda>d. doc_id d < next_oid s) ds"
    by (auto simp: store_ok_def list_all_iff)
  with Some assms(2) show ?thesis by (simp add: coll_def list_all_iff)
qed

lemma create_document_ok:
  assumes "connected s" "write_failure s = None"
  shows "create_document B s name data =
     Inr (oid_str B (next_oid s),
          s\<lparr>colls := coll_put (colls s) name (coll s name @ [\<lparr>doc_id = next_oid s, doc_fields = data\<rparr>]),
            next_oid := Suc (next_oid s)\<rparr>)"
  using assms by (simp add: create_document_def Let_def)

lemma set_coll_put:
  "set (coll_put cs name ds) \<subseteq> insert (name, ds) (set cs)"
  by (induction cs name ds rule: coll_put.induct) auto

lemma store_ok_insert:
  assumes "store_ok s"
  shows "store_ok (s\<lparr>colls := coll_put (colls s) name (coll s name @ [\<lparr>doc_id = next_oid s, doc_fields = data\<rparr>]),
            next_oid := Suc (next_oid s)\<rparr>)"
proof -
  have old: "\<And>n ds d. (n, ds) \<in> set (colls s) \<Longrightarrow> d \<in> set ds \<Longrightarrow> doc_id d < Suc (next_oid s)"
    using assms by (fastforce simp: store_ok_def list_all_iff)
  have new: "\<And>d. d \<in> set (coll s name @ [\<lparr>doc_id = next_oid s, doc_fields = data\<rparr>]) \<Longrightarrow>
      doc_id d < Suc (next_oid s)"
    using store_ok_coll [OF assms] by (auto simp: less_Suc_eq)
  show ?thesis
    unfolding store_ok_def list_all_iff
    using set_coll_put [of "colls s" name "coll s name @ [\<lparr>doc_id = next_oid s, doc_fields = data\<rparr>]"] old new
    by (auto simp del: set_append)
qed

lemma get_documents_readable:
  "connected s \<Longrightarrow> read_failure s = None \<Longrightarrow>
   get_documents s name = Inr (map fetched (coll s name))"
  by (simp add: get_documents_def)

lemma count_documents_readable:
  "connected s \<Longrightarrow> read_failure s = None \<Longrightarrow>
   count_documents s name = Inr (int (length (coll s name)))"
  by (simp add: count_documents_def db_getitem_def)

lemma products_loop_eq:
  "products_loop B docs products = products @ map (expose_id B) docs"
  by (induction docs arbitrary: products) simp_all

lemma map_of_dict_set:
  "map_of (dict_set d k v) = (map_of d)(k \<mapsto> v)"
  by (induction d k v rule: dict_set.induct) (auto simp: fun_eq_iff)

lemma expose_id_fetched:
  "underscore_id (expose_id B (fetched d)) = None"
  "map_of (entries (expose_id B (fetched d))) ''id'' = Some (VStr (oid_str B (doc_id d)))"
  "key \<noteq> ''id'' \<Longrightarrow> map_of (entries (expose_id B (fetched d))) key = map_of (doc_fields d) key"
  by (simp_all add: expose_id_def fetched_def str_get_id_def map_of_dict_set)

lemma list_products_readable:
  "connected s \<Longrightarrow> read_failure s = None \<Longrightarrow>
   list_products B s = Inr (map (\<lambda>d. expose_id B (fetched d)) (coll s ''product''))"
  by (simp add: list_products_def get_documents_readable products_loop_eq)

lemma insert_loop_ok:
  "connected s \<Longrightarrow> write_failure s = None \<Longrightarrow>
   \<exists>s'. insert_loop B s name ds = (None, s') \<and>
        map doc_fields (coll s' name) = map doc_fields (coll s name) @ ds \<and>
        map doc_id (coll s' name) = map doc_id (coll s name) @ [next_oid s ..< next_oid s + length ds] \<and>
        (\<forall>n. n \<noteq> name \<longrightarrow> coll s' n = coll s n) \<and>
        connected s' \<and> read_failure s' = read_failure s \<and> write_failure s' = None \<and>
        next_oid s' = next_oid s + length ds"
proof (induction ds arbitrary: s)
  case Nil
  then show ?case by simp
next
  case (Cons d ds)
  let ?s1 = "s\<lparr>colls := coll_put (colls s) name (coll s name @ [\<lparr>doc_id = next_oid s, doc_fields = d\<rparr>]),
            next_oid := Suc (next_oid s)\<rparr>"
  have step: "create_document B s name d = Inr (oid_str B (next_oid s), ?s1)"
    using Cons.prems by (rule create_document_ok)
  have "connected ?s1" "write_failure ?s1 = None"
    using Cons.prems by simp_all
  from Cons.IH [OF this] obtain s' where s':
    "insert_loop B ?s1 name ds = (None, s')"
    "map doc_fields (coll s' name) = map doc_fields (coll ?s1 name) @ ds"
    "map doc_id (coll s' name) = map doc_id (coll ?s1 name) @ [next_oid ?s1 ..< next_oid ?s1 + length ds]"
    "\<forall>n. n \<noteq> name \<longrightarrow> coll s' n = coll ?s1 n"
    "connected s'" "read_failure s' = read_failure ?s1" "write_failure s' = None"
    "next_oid s' = next_oid ?s1 + length ds"
    by blast
  have "insert_loop B s name (d # ds) = (None, s')"
    using step s'(1) by simp
  moreover have "map doc_fields (coll s' name) = map doc_fields (coll s name) @ d # ds"
    using s'(2) by (simp add: coll_after_put)
  moreover have "map doc_id (coll s' name) =
      map doc_id (coll s name) @ [next_oid s ..< next_oid s + length (d # ds)]"
  proof -
    have "[next_oid s ..< next_oid s + length (d # ds)] =
        next_oid s # [Suc (next_oid s) ..< Suc (next_oid s) + length ds]"
      by (subst upt_rec) simp
    with s'(3) show ?thesis by (simp add: coll_after_put)
  qed
  moreover have "\<forall>n. n \<noteq> name \<longrightarrow> coll s' n = coll s n"
    using s'(4) by (simp add: coll_after_put)
  moreover have "read_failure s' = read_failure s" "next_oid s' = next_oid s + length (d # ds)"
    using s'(6,8) by simp_all
  ultimately show ?case using s'(5,7) by blast
qed

lemma length_demo: "length demo = 3"
  by (simp add: demo_def)

lemma seed_products_empty:
  assumes "healthy s" and "coll s ''product'' = []"
  shows "\<exists>s'. seed_products B s = (Inr \<lparr>message = lit ''Seeded'', seed_count = 3\<rparr>, s') \<and>
     map doc_fields (coll s' ''product'') = demo \<and>
     map doc_id (coll s' ''product'') = [next_oid s ..< next_oid s + 3] \<and>
     connected s' \<and> read_failure s' = None"
proof -
  from assms(1) have c: "connected s" and r: "read_failure s = None" and w: "write_failure s = None"
    by (simp_all add: healthy_def)
  from insert_loop_ok [OF c w, of B "''product''" demo] obtain s' where s':
    "insert_loop B s ''product'' demo = (None, s')"
    "map doc_fields (coll s' ''product'') = map doc_fields (coll s ''product'') @ demo"
    "map doc_id (coll s' ''product'') =
       map doc_id (coll s ''product'') @ [next_oid s ..< next_oid s + length demo]"
    "connected s'" "read_failure s' = read_failure s"
    by blast
  have "seed_products B s = (Inr \<lparr>message = lit ''Seeded'', seed_count = 3\<rparr>, s')"
    using assms(2) s'(1)
    by (simp add: seed_products_def count_documents_readable [OF c r] length_demo)
  with s'(2-5) assms(2) r show ?thesis
    by (simp add: length_demo)
qed

lemma store_ok_empty_store: "store_ok empty_store"
  by (simp add: store_ok_def empty_store_def)

lemma store_ok_create_document:
  "store_ok s \<Longrightarrow> create_document B s name data = Inr (i, s') \<Longrightarrow> store_ok s'"
  using store_ok_insert [of s name data]
  by (auto simp: create_document_def Let_def split: if_splits option.splits)

lemma store_ok_create_order:
  "store_ok s \<Longrightarrow> store_ok (snd (create_order B s order))"
  by (auto simp: create_order_def split: sum.splits dest: store_ok_create_document)

lemma store_ok_insert_loop:
  "store_ok s \<Longrightarrow> store_ok (snd (insert_loop B s name ds))"
  by (induction ds arbitrary: s) (auto split: sum.splits dest: store_ok_create_document)

lemma store_ok_seed_products:
  "store_ok s \<Longrightarrow> store_ok (snd (seed_products B s))"
  using store_ok_insert_loop [of s B "''product''" demo]
  by (auto simp: seed_products_def split: sum.splits option.splits prod.splits)

section \<open>Evaluating the concrete identifier format\<close>

lemma hex24_simps:
  "is_valid hex24 = hex24_valid" "ObjectId hex24 = hex24_parse" "oid_str hex24 = hex_digits 24"
  by (simp_all add: hex24_def)

lemma hex_digits_numeral:
  "hex_digits (numeral k) n = hex_digits (pred_numeral k) (n div 16) @ [hex_char (n mod 16)]"
proof -
  have "numeral k = Suc (pred_numeral k)" by (rule numeral_eq_Suc)
  then show ?thesis by (simp only: hex_digits.simps)
qed

lemma hex_digits_small:
  "hex_digits 24 0 = lit ''000000000000000000000000''"
  "hex_digits 24 (Suc 0) = lit ''000000000000000000000001''"
  "hex_digits 24 2 = lit ''000000000000000000000002''"
  "hex_digits 24 3 = lit ''000000000000000000000003''"
  by (simp_all add: hex_digits_numeral hex_char_def lit_def)

lemma inj_on_hex_digits_3: "inj_on (hex_digits 24) {..3}"
proof -
  have "{..3::nat} = {0, Suc 0, 2, 3}" by auto
  then show ?thesis
    by (simp add: hex_digits_small) (simp add: lit_def)
qed

lemma coll_shop_product:
  "coll shop ''product'' =
     [\<lparr>doc_id = 1, doc_fields = [(''title'', VStr (lit ''Classic Tee''))]\<rparr>,
      \<lparr>doc_id = 2, doc_fields = [(''title'', VStr (lit ''Ceramic Mug''))]\<rparr>]"
  by (simp add: coll_def shop_def)

lemma valid_ids:
  "hex24_valid (lit ''000000000000000000000001'')"
  "hex24_valid (lit ''000000000000000000000002'')"
  "hex24_valid (lit ''000000000000000000000009'')"
  "\<not> hex24_valid (lit ''not-a-valid-id'')"
  by (simp_all add: hex24_valid_def lit_def hex_value_def)

lemma parsed_ids:
  "hex24_parse (lit ''000000000000000000000001'') = 1"
  "hex24_parse (lit ''000000000000000000000002'') = 2"
  "hex24_parse (lit ''000000000000000000000009'') = 9"
  by (simp_all add: hex24_parse_def lit_def hex_value_def)

lemma find_one_shop_1:
  "find_one shop ''product'' (Suc 0) = Inr (Some \<lparr>doc_id = 1, doc_fields = [(''title'', VStr (lit ''Classic Tee''))]\<rparr>)"
  by (simp add: find_one_def db_getitem_def coll_shop_product) (simp add: shop_def)

lemma shop_facts: "healthy shop" "store_ok shop" "next_oid shop = 3" "coll shop ''order'' = []"
  by (simp_all add: healthy_def store_ok_def shop_def coll_def)

text \<open>Without a handle a lookup or a fetch raises, and the handler answers 500.\<close>

lemma create_order_no_handle:
  "create_order hex24 no_store \<lparr>items = [line ''000000000000000000000001''], order_fields = []\<rparr> =
     (Inl (HTTPException 500 none_not_subscriptable), no_store)"
  by (simp add: create_order_def check_item_def find_one_def db_getitem_def hex24_simps
      valid_ids line_def no_store_def)

lemma list_products_no_handle:
  "list_products B no_store = Inl (HTTPException 500 (lit ''StoreUnavailable''))"
  by (simp add: list_products_def get_documents_def no_store_def StoreUnavailable_def)

section \<open>Order creation\<close>

text \<open>
  C4. \<open>create_order\<close> examines the line items in the order the client gave them and stops
  at the first one that fails: with a store that answers lookups, if every item before
  \<open>it\<close> is well-formed and matches a product and \<open>it\<close> is malformed or matches none, the
  error is the 400 naming \<open>it\<close> (malformed) or the 404 naming \<open>it\<close> (no product), the
  store is as it was, and this holds whatever items \<open>post\<close> follow: they are not checked.
\<close>

theorem create_order_first_failure:
  assumes "connected s" and "read_failure s = None"
    and "items order = pre @ it # post"
    and "\<forall>x\<in>set pre. is_valid B (product_id x) \<and>
           (\<exists>d\<in>set (coll s ''product''). doc_id d = ObjectId B (product_id x))"
    and "\<not> is_valid B (product_id it) \<or>
           (\<forall>d\<in>set (coll s ''product''). doc_id d \<noteq> ObjectId B (product_id it))"
  shows "create_order B s order =
     (Inl (if \<not> is_valid B (product_id it)
           then HTTPException 400 (lit ''Invalid product id: '' @ product_id it)
           else HTTPException 404 (lit ''Product not found: '' @ product_id it)), s)"
proof -
  from assms(1,2,4) have pre: "\<forall>x\<in>set pre. check_item B s x = Inr ()"
    by (simp add: check_item_resolves)
  have it: "check_item B s it =
     Inl (Http (if \<not> is_valid B (product_id it)
           then HTTPException 400 (lit ''Invalid product id: '' @ product_id it)
           else HTTPException 404 (lit ''Product not found: '' @ product_id it)))"
    using assms(1,2,5) by (simp add: check_item_malformed check_item_missing)
  from pre it have "check_items B s (pre @ it # post) =
     Inl (Http (if \<not> is_valid B (product_id it)
           then HTTPException 400 (lit ''Invalid product id: '' @ product_id it)
           else HTTPException 404 (lit ''Product not found: '' @ product_id it)))"
    by (simp add: check_items_prefix_ok)
  with assms(3) show ?thesis
    by (simp add: create_order_def)
qed

theorem create_order_first_failure_witness:
  "create_order hex24 shop
     \<lparr>items = [line ''000000000000000000000001'', line ''000000000000000000000009'',
               line ''not-a-valid-id''],
      order_fields = []\<rparr> =
     (Inl (HTTPException 404 (lit ''Product not found: '' @ lit ''000000000000000000000009'')), shop)"
  using create_order_first_failure [of shop
      "\<lparr>items = [line ''000000000000000000000001'', line ''000000000000000000000009'',
               line ''not-a-valid-id''], order_fields = []\<rparr>"
      "[line ''000000000000000000000001'']" "line ''000000000000000000000009''"
      "[line ''not-a-valid-id'']" hex24]
  by (simp add: hex24_simps coll_shop_product valid_ids parsed_ids line_def)
     (simp add: shop_def)

text \<open>
  C1, as the claim states it, fails: in \<open>mixed_order\<close> the second item is malformed, yet
  the first item, well-formed with no matching product, ends the loop with the 404.
\<close>

theorem create_order_malformed_counterexample:
  "\<not> is_valid hex24 (product_id (items mixed_order ! 1)) \<and>
   create_order hex24 shop mixed_order =
     (Inl (HTTPException 404 (lit ''Product not found: 000000000000000000000009'')), shop)"
proof -
  have "find_one shop ''product'' 9 = Inr None"
    by (simp add: find_one_def db_getitem_def coll_shop_product) (simp add: shop_def)
  then show ?thesis
    by (simp add: mixed_order_def line_def create_order_def check_item_def hex24_simps
        valid_ids parsed_ids) (simp add: lit_def)
qed

text \<open>
  C1, amended. For every order request with a malformed \<open>product_id\<close>, in every state of
  the store, \<open>create_order\<close> fails and the store is as it was: no order document is
  inserted. The failure is the 400 naming the malformed value when every item before it
  is well-formed and its lookup finds a product.
\<close>

theorem create_order_malformed:
  assumes "items order = pre @ it # post" and "\<not> is_valid B (product_id it)"
  shows "(\<exists>h. create_order B s order = (Inl h, s)) \<and>
     ((\<forall>x\<in>set pre. is_valid B (product_id x) \<and>
          (\<exists>d. find_one s ''product'' (ObjectId B (product_id x)) = Inr (Some d))) \<longrightarrow>
      create_order B s order =
        (Inl (HTTPException 400 (lit ''Invalid product id: '' @ product_id it)), s))"
proof
  from assms have "\<exists>x\<in>set (items order). \<not> is_valid B (product_id x)" by auto
  then obtain r where "check_items B s (items order) = Inl r"
    using check_items_malformed_fails by blast
  then show "\<exists>h. create_order B s order = (Inl h, s)"
    by (simp add: create_order_def)
next
  show "(\<forall>x\<in>set pre. is_valid B (product_id x) \<and>
          (\<exists>d. find_one s ''product'' (ObjectId B (product_id x)) = Inr (Some d))) \<longrightarrow>
      create_order B s order =
        (Inl (HTTPException 400 (lit ''Invalid product id: '' @ product_id it)), s)"
  proof
    assume "\<forall>x\<in>set pre. is_valid B (product_id x) \<and>
          (\<exists>d. find_one s ''product'' (ObjectId B (product_id x)) = Inr (Some d))"
    then have "\<forall>x\<in>set pre. check_item B s x = Inr ()"
      by (simp add: check_item_ok_iff)
    then have "check_items B s (pre @ it # post) =
        Inl (Http (HTTPException 400 (lit ''Invalid product id: '' @ product_id it)))"
      using assms(2) by (simp add: check_items_prefix_ok check_item_malformed)
    with assms(1) show "create_order B s order =
        (Inl (HTTPException 400 (lit ''Invalid product id: '' @ product_id it)), s)"
      by (simp add: create_order_def)
  qed
qed

theorem create_order_malformed_witness:
  "create_order hex24 shop
     \<lparr>items = [line ''000000000000000000000001'', line ''not-a-valid-id'',
               line ''000000000000000000000009''], order_fields = []\<rparr> =
     (Inl (HTTPException 400 (lit ''Invalid product id: '' @ lit ''not-a-valid-id'')), shop)"
  using create_order_malformed [of
      "\<lparr>items = [line ''000000000000000000000001'', line ''not-a-valid-id'',
               line ''000000000000000000000009''], order_fields = []\<rparr>"
      "[line ''000000000000000000000001'']" "line ''not-a-valid-id''"
      "[line ''000000000000000000000009'']" hex24 shop]
  by (simp add: hex24_simps valid_ids parsed_ids line_def find_one_shop_1)

text \<open>
  C2. With a store that answers lookups, for every order request whose identifiers are all
  well-formed and of which at least one matches no product, \<open>create_order\<close> fails with
  the 404 naming an identifier that matches no product, and the store is as it was: no
  order document is inserted, also when earlier items were valid.
\<close>

theorem create_order_not_found:
  assumes "connected s" and "read_failure s = None"
    and "\<forall>x\<in>set (items order). is_valid B (product_id x)"
    and "\<exists>x\<in>set (items order). \<forall>d\<in>set (coll s ''product''). doc_id d \<noteq> ObjectId B (product_id x)"
  shows "\<exists>x\<in>set (items order).
      (\<forall>d\<in>set (coll s ''product''). doc_id d \<noteq> ObjectId B (product_id x)) \<and>
      create_order B s order =
        (Inl (HTTPException 404 (lit ''Product not found: '' @ product_id x)), s)"
proof -
  from check_items_some_missing [OF assms]
  obtain x where "x \<in> set (items order)"
    "\<forall>d\<in>set (coll s ''product''). doc_id d \<noteq> ObjectId B (product_id x)"
    "check_items B s (items order) =
       Inl (Http (HTTPException 404 (lit ''Product not found: '' @ product_id x)))"
    by blast
  then show ?thesis
    by (auto simp: create_order_def)
qed

theorem create_order_not_found_witness:
  "create_order hex24 shop
     \<lparr>items = [line ''000000000000000000000002'', line ''000000000000000000000009''],
      order_fields = []\<rparr> =
     (Inl (HTTPException 404 (lit ''Product not found: '' @ lit ''000000000000000000000009'')), shop)"
  using create_order_not_found [of shop
     "\<lparr>items = [line ''000000000000000000000002'', line ''000000000000000000000009''],
      order_fields = []\<rparr>" hex24]
  by (simp add: hex24_simps coll_shop_product valid_ids parsed_ids line_def)
     (simp add: shop_def)

text \<open>
  C3. With a healthy store whose generator has passed every stored identifier and renders
  the identifiers up to its own state as different strings (so whenever \<open>str\<close> is
  injective on identifiers), for every order request whose items are all well-formed and
  match a product, \<open>create_order\<close> returns status \<open>created\<close> and an identifier; the
  order collection gains exactly one document, the order, at its end; the returned
  identifier is the rendering of the identifier of that document; every other collection
  is as it was; and the returned identifier is fresh: it is the rendering of the
  identifier of no document the store held.
\<close>

theorem create_order_success:
  assumes "healthy s" and "store_ok s" and "inj_on (oid_str B) {..next_oid s}"
    and "\<forall>x\<in>set (items order). is_valid B (product_id x) \<and>
           (\<exists>d\<in>set (coll s ''product''). doc_id d = ObjectId B (product_id x))"
  shows "\<exists>r s'. create_order B s order = (Inr r, s') \<and>
         status r = lit ''created'' \<and>
         coll s' ''order'' =
           coll s ''order'' @ [\<lparr>doc_id = next_oid s, doc_fields = order_document order\<rparr>] \<and>
         created_id r = oid_str B (doc_id (last (coll s' ''order''))) \<and>
         (\<forall>name. name \<noteq> ''order'' \<longrightarrow> coll s' name = coll s name) \<and>
         (\<forall>name. \<forall>d\<in>set (coll s name). oid_str B (doc_id d) \<noteq> created_id r)"
proof -
  from assms(1) have c: "connected s" and r: "read_failure s = None" and w: "write_failure s = None"
    by (simp_all add: healthy_def)
  let ?r = "\<lparr>created_id = oid_str B (next_oid s), status = lit ''created''\<rparr>"
  let ?s' = "s\<lparr>colls := coll_put (colls s) ''order''
              (coll s ''order'' @ [\<lparr>doc_id = next_oid s, doc_fields = order_document order\<rparr>]),
         next_oid := Suc (next_oid s)\<rparr>"
  from c r assms(4) have "check_items B s (items order) = Inr ()"
    by (rule check_items_all_resolve)
  then have run: "create_order B s order = (Inr ?r, ?s')"
    by (simp add: create_order_def create_document_ok [OF c w])
  have fresh: "oid_str B (doc_id d) \<noteq> created_id ?r" if "d \<in> set (coll s name)" for name d
  proof
    assume eq: "oid_str B (doc_id d) = created_id ?r"
    from store_ok_coll [OF assms(2) that] have lt: "doc_id d < next_oid s" .
    then have "doc_id d \<in> {..next_oid s}" "next_oid s \<in> {..next_oid s}" by simp_all
    with assms(3) eq have "doc_id d = next_oid s"
      by (simp add: inj_on_eq_iff)
    with lt show False by simp
  qed
  have "status ?r = lit ''created''" by simp
  moreover have "coll ?s' ''order'' =
      coll s ''order'' @ [\<lparr>doc_id = next_oid s, doc_fields = order_document order\<rparr>]"
    by (simp add: coll_after_put)
  moreover have "created_id ?r = oid_str B (doc_id (last (coll ?s' ''order'')))"
    by (simp add: coll_after_put)
  moreover have "\<forall>name. name \<noteq> ''order'' \<longrightarrow> coll ?s' name = coll s name"
    by (simp add: coll_after_put)
  moreover have "\<forall>name. \<forall>d\<in>set (coll s name). oid_str B (doc_id d) \<noteq> created_id ?r"
    using fresh by blast
  ultimately show ?thesis using run by blast
qed

theorem create_order_success_witness:
  "\<exists>r s'. create_order hex24 shop
           \<lparr>items = [line ''000000000000000000000002'', line ''000000000000000000000001''],
            order_fields = []\<rparr> = (Inr r, s') \<and>
         status r = lit ''created'' \<and>
         created_id r = lit ''000000000000000000000003'' \<and>
         coll s' ''order'' =
           [\<lparr>doc_id = 3,
             doc_fields = order_document
               \<lparr>items = [line ''000000000000000000000002'', line ''000000000000000000000001''],
                order_fields = []\<rparr>\<rparr>] \<and>
         coll s' ''product'' = coll shop ''product'' \<and>
         oid_str hex24 (doc_id (coll shop ''product'' ! 0)) \<noteq> created_id r \<and>
         oid_str hex24 (doc_id (coll shop ''product'' ! 1)) \<noteq> created_id r"
proof -
  have i: "inj_on (oid_str hex24) {..next_oid shop}"
    using inj_on_hex_digits_3 by (simp add: hex24_simps shop_facts)
  have v: "\<forall>x\<in>set [line ''000000000000000000000002'', line ''000000000000000000000001''].
      is_valid hex24 (product_id x) \<and>
      (\<exists>d\<in>set (coll shop ''product''). doc_id d = ObjectId hex24 (product_id x))"
    by (simp add: hex24_simps coll_shop_product valid_ids parsed_ids line_def)
  from create_order_success [of shop hex24
       "\<lparr>items = [line ''000000000000000000000002'', line ''000000000000000000000001''],
        order_fields = []\<rparr>"] shop_facts(1,2) i v
  obtain r s' where rs:
    "create_order hex24 shop
       \<lparr>items = [line ''000000000000000000000002'', line ''000000000000000000000001''],
        order_fields = []\<rparr> = (Inr r, s')"
    "status r = lit ''created''"
    "coll s' ''order'' = coll shop ''order'' @
       [\<lparr>doc_id = next_oid shop,
         doc_fields = order_document
           \<lparr>items = [line ''000000000000000000000002'', line ''000000000000000000000001''],
            order_fields = []\<rparr>\<rparr>]"
    "created_id r = oid_str hex24 (doc_id (last (coll s' ''order'')))"
    "\<forall>name. name \<noteq> ''order'' \<longrightarrow> coll s' name = coll shop name"
    "\<forall>name. \<forall>d\<in>set (coll shop name). oid_str hex24 (doc_id d) \<noteq> created_id r"
    by auto
  from rs(3) have o: "coll s' ''order'' =
           [\<lparr>doc_id = 3,
             doc_fields = order_document
               \<lparr>items = [line ''000000000000000000000002'', line ''000000000000000000000001''],
                order_fields = []\<rparr>\<rparr>]"
    by (simp add: shop_facts)
  with rs(4) have id: "created_id r = lit ''000000000000000000000003''"
    by (simp add: hex24_simps hex_digits_small)
  from rs(5) have p: "coll s' ''product'' = coll shop ''product''" by simp
  from rs(6) have "\<forall>d\<in>set (coll shop ''product''). oid_str hex24 (doc_id d) \<noteq> created_id r"
    by (rule spec)
  then have f: "oid_str hex24 (doc_id (coll shop ''product'' ! 0)) \<noteq> created_id r"
    "oid_str hex24 (doc_id (coll shop ''product'' ! 1)) \<noteq> created_id r"
    by (simp_all add: coll_shop_product)
  from rs(1,2) id o p f show ?thesis by blast
qed

text \<open>
  C10. For an order request with no items, with a handle and a store that takes writes,
  \<open>create_order\<close> inserts the order document with the empty item list and returns its
  generated identifier with status \<open>created\<close>. Nothing is validated: the format rule
  \<open>is_valid\<close> and the state of reads play no part.
\<close>

theorem create_order_empty:
  assumes "connected s" and "write_failure s = None" and "items order = []"
  shows "\<exists>s'. create_order B s order =
           (Inr \<lparr>created_id = oid_str B (next_oid s), status = lit ''created''\<rparr>, s') \<and>
         coll s' ''order'' =
           coll s ''order'' @
             [\<lparr>doc_id = next_oid s, doc_fields = (''items'', VList []) # order_fields order\<rparr>] \<and>
         (\<forall>name. name \<noteq> ''order'' \<longrightarrow> coll s' name = coll s name)"
  using assms
  by (simp add: create_order_def create_document_ok coll_after_put order_document_def)

theorem create_order_empty_witness:
  "\<exists>s'. create_order \<lparr>is_valid = \<lambda>x. False, ObjectId = hex24_parse, oid_str = hex_digits 24\<rparr>
           reads_fail \<lparr>items = [], order_fields = []\<rparr> =
           (Inr \<lparr>created_id = lit ''000000000000000000000003'', status = lit ''created''\<rparr>, s') \<and>
         coll s' ''order'' = [\<lparr>doc_id = 3, doc_fields = [(''items'', VList [])]\<rparr>] \<and>
         coll s' ''product'' = coll shop ''product''"
proof -
  have d: "hex_digits 24 3 = lit ''000000000000000000000003''"
    by (simp add: hex_digits_numeral hex_char_def lit_def)
  have f: "connected reads_fail" "write_failure reads_fail = None" "next_oid reads_fail = 3"
    "coll reads_fail ''order'' = []" "coll reads_fail ''product'' = coll shop ''product''"
    by (simp_all add: reads_fail_def shop_def coll_def)
  show ?thesis
    using create_order_empty [of reads_fail "\<lparr>items = [], order_fields = []\<rparr>"
        "\<lparr>is_valid = \<lambda>x. False, ObjectId = hex24_parse, oid_str = hex_digits 24\<rparr>"]
    by (simp add: f(1-4) d) (use f(5) in force)
qed

section \<open>Product listing\<close>

text \<open>
  C9. With a store that answers reads, when the product collection has no documents
  \<open>list_products\<close> returns the empty sequence, not an error.
\<close>

theorem list_products_empty:
  assumes "connected s" and "read_failure s = None" and "coll s ''product'' = []"
  shows "list_products B s = Inr []"
  using assms by (simp add: list_products_readable)

theorem list_products_empty_witness:
  "list_products hex24 empty_store = Inr []"
  using list_products_empty [of empty_store hex24]
  by (simp add: empty_store_def coll_def)

text \<open>
  C6. With a store that answers reads, \<open>list_products\<close> returns one dict for each stored
  product, in the order of the store and as many as the store has: the dict at position
  \<open>k\<close> has no \<open>_id\<close> entry, has under \<open>id\<close> the string rendering of the identifier of the
  stored document at position \<open>k\<close>, and has every other entry of that document. In
  particular, after seeding a store with no products, the three demo products are listed
  this way, under the identifiers the store generated for them.
\<close>

theorem list_products_round_trip:
  assumes "connected s" and "read_failure s = None"
  shows "(\<exists>rs. list_products B s = Inr rs \<and> length rs = length (coll s ''product'') \<and>
          (\<forall>k<length rs.
             underscore_id (rs ! k) = None \<and>
             map_of (entries (rs ! k)) ''id'' =
               Some (VStr (oid_str B (doc_id (coll s ''product'' ! k)))) \<and>
             (\<forall>key. key \<noteq> ''id'' \<longrightarrow>
                map_of (entries (rs ! k)) key = map_of (doc_fields (coll s ''product'' ! k)) key))) \<and>
         (write_failure s = None \<and> coll s ''product'' = [] \<longrightarrow>
          (\<exists>rs. list_products B (snd (seed_products B s)) = Inr rs \<and> length rs = 3 \<and>
             (\<forall>k<3.
                underscore_id (rs ! k) = None \<and>
                map_of (entries (rs ! k)) ''id'' = Some (VStr (oid_str B (next_oid s + k))) \<and>
                (\<forall>key. key \<noteq> ''id'' \<longrightarrow>
                   map_of (entries (rs ! k)) key = map_of (demo ! k) key))))"
proof -
  have general: "\<exists>rs. list_products B t = Inr rs \<and> length rs = length (coll t ''product'') \<and>
          (\<forall>k<length rs.
             underscore_id (rs ! k) = None \<and>
             map_of (entries (rs ! k)) ''id'' =
               Some (VStr (oid_str B (doc_id (coll t ''product'' ! k)))) \<and>
             (\<forall>key. key \<noteq> ''id'' \<longrightarrow>
                map_of (entries (rs ! k)) key = map_of (doc_fields (coll t ''product'' ! k)) key))"
    if "connected t" "read_failure t = None" for t
    using that by (simp add: list_products_readable expose_id_fetched)
  have seeded: "\<exists>rs. list_products B (snd (seed_products B s)) = Inr rs \<and> length rs = 3 \<and>
             (\<forall>k<3.
                underscore_id (rs ! k) = None \<and>
                map_of (entries (rs ! k)) ''id'' = Some (VStr (oid_str B (next_oid s + k))) \<and>
                (\<forall>key. key \<noteq> ''id'' \<longrightarrow>
                   map_of (entries (rs ! k)) key = map_of (demo ! k) key))"
    if w: "write_failure s = None" and e: "coll s ''product'' = []"
  proof -
    from assms w have "healthy s" by (simp add: healthy_def)
    from seed_products_empty [OF this e, of B] obtain s' where s':
      "seed_products B s = (Inr \<lparr>message = lit ''Seeded'', seed_count = 3\<rparr>, s')"
      "map doc_fields (coll s' ''product'') = demo"
      "map doc_id (coll s' ''product'') = [next_oid s ..< next_oid s + 3]"
      "connected s'" "read_failure s' = None"
      by blast
    from s'(3) have len: "length (coll s' ''product'') = 3"
      using length_map [of doc_id "coll s' ''product''"] by simp
    have ids: "doc_id (coll s' ''product'' ! k) = next_oid s + k" if "k < 3" for k
    proof -
      from that len have "doc_id (coll s' ''product'' ! k) = map doc_id (coll s' ''product'') ! k"
        by simp
      also have "\<dots> = next_oid s + k" using that by (simp add: s'(3))
      finally show ?thesis .
    qed
    have flds: "doc_fields (coll s' ''product'' ! k) = demo ! k" if "k < 3" for k
    proof -
      from that len have "doc_fields (coll s' ''product'' ! k) = map doc_fields (coll s' ''product'') ! k"
        by simp
      then show ?thesis by (simp add: s'(2))
    qed
    from general [OF s'(4,5)] obtain rs where rs:
      "list_products B s' = Inr rs" "length rs = length (coll s' ''product'')"
      "\<forall>k<length rs.
             underscore_id (rs ! k) = None \<and>
             map_of (entries (rs ! k)) ''id'' =
               Some (VStr (oid_str B (doc_id (coll s' ''product'' ! k)))) \<and>
             (\<forall>key. key \<noteq> ''id'' \<longrightarrow>
                map_of (entries (rs ! k)) key = map_of (doc_fields (coll s' ''product'' ! k)) key)"
      by blast
    from rs(2,3) len ids flds have "\<forall>k<3.
                underscore_id (rs ! k) = None \<and>
                map_of (entries (rs ! k)) ''id'' = Some (VStr (oid_str B (next_oid s + k))) \<and>
                (\<forall>key. key \<noteq> ''id'' \<longrightarrow>
                   map_of (entries (rs ! k)) key = map_of (demo ! k) key)"
      by simp
    with rs(1,2) len s'(1) show ?thesis by simp
  qed
  from general [OF assms] seeded show ?thesis by blast
qed

theorem list_products_round_trip_witness:
  "(\<exists>rs. list_products hex24 shop = Inr rs \<and> length rs = 2 \<and>
      underscore_id (rs ! 1) = None \<and>
      map_of (entries (rs ! 1)) ''id'' = Some (VStr (lit ''000000000000000000000002'')) \<and>
      map_of (entries (rs ! 1)) ''title'' = Some (VStr (lit ''Ceramic Mug''))) \<and>
   (\<exists>rs. list_products hex24 (snd (seed_products hex24 empty_store)) = Inr rs \<and> length rs = 3 \<and>
      underscore_id (rs ! 0) = None \<and>
      map_of (entries (rs ! 0)) ''id'' = Some (VStr (lit ''000000000000000000000001'')) \<and>
      map_of (entries (rs ! 0)) ''title'' = Some (VStr (lit ''Classic Tee'')))"
proof -
  have d: "hex_digits 24 1 = lit ''000000000000000000000001''"
    "hex_digits 24 2 = lit ''000000000000000000000002''"
    by (simp_all add: hex_digits_numeral hex_char_def lit_def)
  have t: "map_of (demo ! 0) ''title'' = Some (VStr (lit ''Classic Tee''))"
    by (simp add: demo_def)
  have e: "connected empty_store" "read_failure empty_store = None"
    "write_failure empty_store = None" "coll empty_store ''product'' = []"
    "next_oid empty_store = 1"
    by (simp_all add: empty_store_def coll_def)
  have s: "connected shop" "read_failure shop = None"
    by (simp_all add: shop_def)
  from list_products_round_trip [OF s, of hex24]
  obtain rs where rs: "list_products hex24 shop = Inr rs" "length rs = 2"
    "\<forall>k<length rs.
       underscore_id (rs ! k) = None \<and>
       map_of (entries (rs ! k)) ''id'' =
         Some (VStr (oid_str hex24 (doc_id (coll shop ''product'' ! k)))) \<and>
       (\<forall>key. key \<noteq> ''id'' \<longrightarrow>
          map_of (entries (rs ! k)) key = map_of (doc_fields (coll shop ''product'' ! k)) key)"
    by (auto simp: coll_shop_product)
  from rs(2,3) have "underscore_id (rs ! 1) = None \<and>
       map_of (entries (rs ! 1)) ''id'' =
         Some (VStr (oid_str hex24 (doc_id (coll shop ''product'' ! 1)))) \<and>
       (\<forall>key. key \<noteq> ''id'' \<longrightarrow>
          map_of (entries (rs ! 1)) key = map_of (doc_fields (coll shop ''product'' ! 1)) key)"
    by simp
  then have one: "underscore_id (rs ! 1) = None \<and>
      map_of (entries (rs ! 1)) ''id'' = Some (VStr (lit ''000000000000000000000002'')) \<and>
      map_of (entries (rs ! 1)) ''title'' = Some (VStr (lit ''Ceramic Mug''))"
    by (simp add: coll_shop_product hex24_simps d)
  from list_products_round_trip [OF e(1,2), of hex24] e(3,4)
  obtain qs where qs: "list_products hex24 (snd (seed_products hex24 empty_store)) = Inr qs"
    "length qs = 3"
    "\<forall>k<3. underscore_id (qs ! k) = None \<and>
        map_of (entries (qs ! k)) ''id'' = Some (VStr (oid_str hex24 (next_oid empty_store + k))) \<and>
        (\<forall>key. key \<noteq> ''id'' \<longrightarrow> map_of (entries (qs ! k)) key = map_of (demo ! k) key)"
    by blast
  from qs(3) have "underscore_id (qs ! 0) = None \<and>
        map_of (entries (qs ! 0)) ''id'' = Some (VStr (oid_str hex24 (next_oid empty_store + 0))) \<and>
        (\<forall>key. key \<noteq> ''id'' \<longrightarrow> map_of (entries (qs ! 0)) key = map_of (demo ! 0) key)"
    by simp
  then have two: "underscore_id (qs ! 0) = None \<and>
      map_of (entries (qs ! 0)) ''id'' = Some (VStr (lit ''000000000000000000000001'')) \<and>
      map_of (entries (qs ! 0)) ''title'' = Some (VStr (lit ''Classic Tee''))"
    using d(1) by (simp add: e(5) hex24_simps t)
  from rs(1,2) one qs(1,2) two show ?thesis by blast
qed

section \<open>Seeding\<close>

text \<open>
  C5. With a healthy store: when the product collection is not empty \<open>seed_products\<close>
  leaves the store as it is and returns the number of products with the message
  \<open>Products already seeded\<close>; when it is empty \<open>seed_products\<close> inserts the three demo
  products and returns count 3, and a second call then leaves the store as it is, with
  three products, and returns count 3 with the message \<open>Products already seeded\<close>.
\<close>

theorem seed_products_idempotent:
  assumes "healthy s"
  shows "(coll s ''product'' \<noteq> [] \<longrightarrow>
            seed_products B s =
              (Inr \<lparr>message = lit ''Products already seeded'',
                    seed_count = int (length (coll s ''product''))\<rparr>, s)) \<and>
         (coll s ''product'' = [] \<longrightarrow>
            (\<exists>s'. seed_products B s = (Inr \<lparr>message = lit ''Seeded'', seed_count = 3\<rparr>, s') \<and>
                  map doc_fields (coll s' ''product'') = demo \<and>
                  length (coll s' ''product'') = 3 \<and>
                  seed_products B s' =
                    (Inr \<lparr>message = lit ''Products already seeded'', seed_count = 3\<rparr>, s')))"
proof -
  from assms have c: "connected s" and r: "read_failure s = None" and w: "write_failure s = None"
    by (simp_all add: healthy_def)
  have already: "coll t ''product'' \<noteq> [] \<Longrightarrow>
      seed_products B t =
        (Inr \<lparr>message = lit ''Products already seeded'',
              seed_count = int (length (coll t ''product''))\<rparr>, t)"
    if "connected t" "read_failure t = None" for t
    using that by (simp add: seed_products_def count_documents_readable)
  have "\<exists>s'. seed_products B s = (Inr \<lparr>message = lit ''Seeded'', seed_count = 3\<rparr>, s') \<and>
                  map doc_fields (coll s' ''product'') = demo \<and>
                  length (coll s' ''product'') = 3 \<and>
                  seed_products B s' =
                    (Inr \<lparr>message = lit ''Products already seeded'', seed_count = 3\<rparr>, s')"
    if empty: "coll s ''product'' = []"
  proof -
    from insert_loop_ok [OF c w, of B "''product''" demo] obtain s' where s':
      "insert_loop B s ''product'' demo = (None, s')"
      "map doc_fields (coll s' ''product'') = map doc_fields (coll s ''product'') @ demo"
      "connected s'" "read_failure s' = read_failure s"
      by blast
    from s'(2) empty have f: "map doc_fields (coll s' ''product'') = demo" by simp
    then have "length (map doc_fields (coll s' ''product'')) = 3" by (simp add: length_demo)
    then have l: "length (coll s' ''product'') = 3" by simp
    have "seed_products B s = (Inr \<lparr>message = lit ''Seeded'', seed_count = 3\<rparr>, s')"
      using empty s'(1) by (simp add: seed_products_def count_documents_readable [OF c r] length_demo)
    moreover have "seed_products B s' =
        (Inr \<lparr>message = lit ''Products already seeded'', seed_count = 3\<rparr>, s')"
    proof -
      from l have "coll s' ''product'' \<noteq> []" by auto
      with already [of s'] s'(3,4) r l show ?thesis by simp
    qed
    ultimately show ?thesis using f l by blast
  qed
  with already [OF c r] show ?thesis by blast
qed

theorem seed_products_idempotent_witness:
  "(\<exists>s'. seed_products hex24 empty_store = (Inr \<lparr>message = lit ''Seeded'', seed_count = 3\<rparr>, s') \<and>
         map doc_fields (coll s' ''product'') = demo \<and>
         length (coll s' ''product'') = 3 \<and>
         seed_products hex24 s' =
           (Inr \<lparr>message = lit ''Products already seeded'', seed_count = 3\<rparr>, s')) \<and>
   seed_products hex24 shop =
     (Inr \<lparr>message = lit ''Products already seeded'', seed_count = 2\<rparr>, shop)"
proof -
  have e: "healthy empty_store" "coll empty_store ''product'' = []"
    by (simp_all add: healthy_def empty_store_def coll_def)
  show ?thesis
    using seed_products_idempotent [of empty_store hex24] seed_products_idempotent [of shop hex24]
    by (simp add: e shop_facts coll_shop_product)
qed

section \<open>Diagnostics\<close>

lemma lit_append: "lit (a @ b) = lit a @ lit b"
  by (simp add: lit_def)

lemma lit_connected_neq: "lit ''Connected'' \<noteq> lit ''Not Connected''"
  by (simp add: lit_def)

lemma test_database_import_raises:
  "import_db env = Inl e \<Longrightarrow>
   test_database env =
     Inr (except_outer e initial_response
            \<lparr>database_url := Some (env_flag env ''DATABASE_URL''),
             database_name := Some (env_flag env ''DATABASE_NAME'')\<rparr>)"
  by (simp add: test_database_def try_body_def)

lemma test_database_none:
  "import_db env = Inr None \<Longrightarrow>
   test_database env =
     Inr (initial_response
            \<lparr>database := warning_sign @ lit ''  Available but not initialized'',
             database_url := Some (env_flag env ''DATABASE_URL''),
             database_name := Some (env_flag env ''DATABASE_NAME'')\<rparr>)"
  by (simp add: test_database_def try_body_def)

lemma test_database_name_raises:
  "import_db env = Inr (Some h) \<Longrightarrow> name_attr h = Some (Inl e) \<Longrightarrow>
   test_database env =
     Inr (except_outer e initial_response
            \<lparr>database_url := Some (env_flag env ''DATABASE_URL''),
             database_name := Some (env_flag env ''DATABASE_NAME'')\<rparr>)"
  by (cases e) (simp_all add: test_database_def try_body_def)

lemma test_database_handle:
  "import_db env = Inr (Some h) \<Longrightarrow> \<forall>e. name_attr h \<noteq> Some (Inl e) \<Longrightarrow>
   test_database env =
     Inr (list_step h (initial_response\<lparr>connection_status := lit ''Connected''\<rparr>)
            \<lparr>database_url := Some (env_flag env ''DATABASE_URL''),
             database_name := Some (env_flag env ''DATABASE_NAME'')\<rparr>)"
  by (cases "list_collection_names h")
     (auto simp: test_database_def try_body_def list_step_def Let_def
           split: option.splits sum.splits)

lemma except_outer_fields:
  "connection_status (except_outer e r) = connection_status r"
  "collections (except_outer e r) = collections r"
  "database (except_outer e r) =
     (case e of
        ImportError m \<Rightarrow> cross_mark @ lit '' Database module not found (run enable-database first)''
      | Exception m \<Rightarrow> cross_mark @ lit '' Error: '' @ take 50 m)"
  by (cases e; simp)+

lemma list_step_fields:
  "connection_status (list_step h r) = connection_status r"
  "list_collection_names h = Inr cs \<Longrightarrow> collections (list_step h r) = take 10 cs"
  "list_collection_names h = Inr cs \<Longrightarrow>
     database (list_step h r) = check_mark @ lit '' Connected & Working''"
  "list_collection_names h = Inl e \<Longrightarrow> collections (list_step h r) = collections r"
  "list_collection_names h = Inl e \<Longrightarrow>
     database (list_step h r) = warning_sign @ lit ''  Connected but Error: '' @ take 50 (str_exn e)"
  by (simp_all add: list_step_def split: sum.splits)

lemma initial_fields:
  "connection_status initial_response = lit ''Not Connected''"
  "collections initial_response = []"
  by (simp_all add: initial_response_def)

text \<open>
  C8. \<open>test_database\<close> always returns its response: whatever the import, the handle and
  the listing do, no exception leaves it. An exception of the import or of reading the
  handle's name is recorded in \<open>database\<close> (the module-not-found text for an
  \<open>ImportError\<close>, else \<open>Error:\<close> with the first 50 characters of its text); a handle
  that is \<open>None\<close> is recorded as available but not initialised; an exception of the
  listing is recorded as \<open>Connected but Error:\<close> with the first 50 characters of its
  text; and when the listing returns, \<open>collections\<close> is its first 10 names. In every
  case \<open>collections\<close> has at most 10 names.
\<close>

theorem test_database_never_raises:
  "\<exists>r. test_database env = Inr r \<and>
     length (collections r) \<le> 10 \<and>
     (\<forall>e. import_db env = Inl e \<longrightarrow>
        database r =
          (case e of
             ImportError m \<Rightarrow> cross_mark @ lit '' Database module not found (run enable-database first)''
           | Exception m \<Rightarrow> cross_mark @ lit '' Error: '' @ take 50 m)) \<and>
     (import_db env = Inr None \<longrightarrow>
        database r = warning_sign @ lit ''  Available but not initialized'') \<and>
     (\<forall>h e. import_db env = Inr (Some h) \<and> name_attr h = Some (Inl e) \<longrightarrow>
        database r =
          (case e of
             ImportError m \<Rightarrow> cross_mark @ lit '' Database module not found (run enable-database first)''
           | Exception m \<Rightarrow> cross_mark @ lit '' Error: '' @ take 50 m)) \<and>
     (\<forall>h e. import_db env = Inr (Some h) \<and> (\<forall>e'. name_attr h \<noteq> Some (Inl e')) \<and>
            list_collection_names h = Inl e \<longrightarrow>
        database r = warning_sign @ lit ''  Connected but Error: '' @ take 50 (str_exn e)) \<and>
     (\<forall>h cs. import_db env = Inr (Some h) \<and> (\<forall>e'. name_attr h \<noteq> Some (Inl e')) \<and>
            list_collection_names h = Inr cs \<longrightarrow>
        collections r = take 10 cs \<and> database r = check_mark @ lit '' Connected & Working'')"
proof (cases "import_db env")
  case (Inl e)
  then show ?thesis
    by (simp add: test_database_import_raises except_outer_fields initial_fields)
next
  case (Inr ho)
  show ?thesis
  proof (cases ho)
    case None
    with Inr show ?thesis
      by (simp add: test_database_none initial_fields)
  next
    case (Some h)
    show ?thesis
    proof (cases "\<exists>e. name_attr h = Some (Inl e)")
      case True
      then obtain e where "name_attr h = Some (Inl e)" by blast
      with Inr Some show ?thesis
        by (simp add: test_database_name_raises except_outer_fields initial_fields)
    next
      case False
      then have n: "\<forall>e. name_attr h \<noteq> Some (Inl e)" by simp
      from Inr Some have i: "import_db env = Inr (Some h)" by simp
      show ?thesis
      proof (cases "list_collection_names h")
        case (Inl e)
        then show ?thesis
          using i n by (simp add: test_database_handle list_step_fields initial_fields)
      next
        case (Inr cs)
        then show ?thesis
          using i n by (simp add: test_database_handle list_step_fields)
      qed
    qed
  qed
qed

theorem test_database_never_raises_witness:
  "\<exists>r. test_database working_env = Inr r \<and>
     length (collections r) = 10 \<and>
     collections r =
       map lit [''user'', ''product'', ''order'', ''cart'', ''review'', ''coupon'', ''address'',
                ''payment'', ''shipment'', ''session''] \<and>
     database r = check_mark @ lit '' Connected & Working''"
proof -
  have i: "import_db working_env =
      Inr (Some \<lparr>name_attr = Some (Inr (lit ''shop'')), list_collection_names = Inr twelve_names\<rparr>)"
    by (simp add: working_env_def)
  have t: "take 10 twelve_names =
       map lit [''user'', ''product'', ''order'', ''cart'', ''review'', ''coupon'', ''address'',
                ''payment'', ''shipment'', ''session'']"
    by (simp add: twelve_names_def)
  from test_database_never_raises [of working_env] i t show ?thesis
    by auto
qed

text \<open>
  C7, as the claim states it, fails: with a handle whose store does not answer, the
  response comes back and its \<open>connection_status\<close> is \<open>Connected\<close>; the failure is in
  \<open>database\<close> only.
\<close>

theorem test_database_unreachable_counterexample:
  "test_database unreachable_env =
     Inr \<lparr>backend = check_mark @ lit '' Running'',
          database = warning_sign @
            lit ''  Connected but Error: localhost:27017: [Errno 111] Connection refused, T'',
          database_url = Some (check_mark @ lit '' Set''),
          database_name = Some (check_mark @ lit '' Set''),
          connection_status = lit ''Connected'',
          collections = []\<rparr>"
  by (simp add: test_database_def try_body_def list_step_def unreachable_env_def
      initial_response_def env_flag_def configured_def)
     (simp add: lit_def)

text \<open>
  C7, amended. \<open>test_database\<close> returns its response also when the store is unreachable.
  \<open>connection_status\<close> is \<open>Not Connected\<close> exactly when no handle was obtained (the
  import raised or gave \<open>None\<close>) or reading the handle's name raised, and \<open>Connected\<close>
  exactly when there is a handle whose name can be read; when the listing of such a
  handle raises, \<open>connection_status\<close> is \<open>Connected\<close> and \<open>database\<close> is
  \<open>Connected but Error:\<close> with the first 50 characters of the error text.
\<close>

theorem test_database_connection_status:
  "\<exists>r. test_database env = Inr r \<and>
     (connection_status r = lit ''Not Connected'' \<longleftrightarrow>
        (\<forall>h. import_db env = Inr (Some h) \<longrightarrow> (\<exists>e. name_attr h = Some (Inl e)))) \<and>
     (connection_status r = lit ''Connected'' \<longleftrightarrow>
        (\<exists>h. import_db env = Inr (Some h) \<and> (\<forall>e. name_attr h \<noteq> Some (Inl e)))) \<and>
     (\<forall>h e. import_db env = Inr (Some h) \<and> (\<forall>e'. name_attr h \<noteq> Some (Inl e')) \<and>
            list_collection_names h = Inl e \<longrightarrow>
        connection_status r = lit ''Connected'' \<and>
        database r = warning_sign @ lit ''  Connected but Error: '' @ take 50 (str_exn e))"
proof (cases "import_db env")
  case (Inl e)
  then show ?thesis
    using lit_connected_neq
    by (auto simp: test_database_import_raises except_outer_fields initial_fields)
next
  case (Inr ho)
  show ?thesis
  proof (cases ho)
    case None
    with Inr show ?thesis
      using lit_connected_neq
      by (auto simp: test_database_none initial_fields)
  next
    case (Some h)
    show ?thesis
    proof (cases "\<exists>e. name_attr h = Some (Inl e)")
      case True
      then obtain e where "name_attr h = Some (Inl e)" by blast
      with Inr Some show ?thesis
        using lit_connected_neq
        by (auto simp: test_database_name_raises except_outer_fields initial_fields)
    next
      case False
      then have n: "\<forall>e. name_attr h \<noteq> Some (Inl e)" by simp
      from Inr Some have i: "import_db env = Inr (Some h)" by simp
      show ?thesis
        using i n lit_connected_neq
        by (auto simp: test_database_handle list_step_fields)
    qed
  qed
qed

theorem test_database_connection_status_witness:
  "(\<exists>r. test_database no_handle_env = Inr r \<and> connection_status r = lit ''Not Connected'') \<and>
   (\<exists>r. test_database unreachable_env = Inr r \<and> connection_status r = lit ''Connected'' \<and>
        database r = warning_sign @
          lit ''  Connected but Error: localhost:27017: [Errno 111] Connection refused, T'')"
proof -
  have a: "import_db no_handle_env = Inr None"
    by (simp add: no_handle_env_def)
  have b: "import_db unreachable_env = Inr (Some
        \<lparr>name_attr = Some (Inr (lit ''shop'')),
         list_collection_names =
           Inl (Exception (lit ''localhost:27017: [Errno 111] Connection refused, Timeout: 30s''))\<rparr>)"
    by (simp add: unreachable_env_def)
  have c: "lit ''  Connected but Error: '' @
      take 50 (lit ''localhost:27017: [Errno 111] Connection refused, Timeout: 30s'') =
      lit ''  Connected but Error: localhost:27017: [Errno 111] Connection refused, T''"
    by (simp add: lit_def)
  from test_database_connection_status [of no_handle_env] a
  have one: "\<exists>r. test_database no_handle_env = Inr r \<and> connection_status r = lit ''Not Connected''"
    by auto
  from test_database_connection_status [of unreachable_env] b c
  have two: "\<exists>r. test_database unreachable_env = Inr r \<and> connection_status r = lit ''Connected'' \<and>
        database r = warning_sign @
          lit ''  Connected but Error: localhost:27017: [Errno 111] Connection refused, T''"
    by auto
  from one two show ?thesis by blast
qed

end
